theory Spec2Isabelle
  imports Complex_Main "HOL-Library.Log_Nat"
begin

section \<open>Faults\<close>

text \<open>
  The option code of \<^verbatim>\<open>ucioption.cpp\<close> has no error codes. What can go wrong is an
  exception thrown by \<^verbatim>\<open>std::stof\<close> (\<^verbatim>\<open>std::invalid_argument\<close>,
  \<^verbatim>\<open>std::out_of_range\<close>), a failed \<^verbatim>\<open>assert\<close>, or a float-to-int conversion whose
  value does not fit an \<^verbatim>\<open>int\<close>. None of them is caught in the file, so each one leaves the
  function it occurs in; the model returns it as the left summand. Assertions are modelled
  as checked (a build without \<^verbatim>\<open>NDEBUG\<close>).
\<close>

datatype fault = invalid_argument | out_of_range | assertion_failure | undefined_behaviour

section \<open>The library functions the file calls\<close>

subsection \<open>Characters and the case-insensitive order\<close>

text \<open>
  \<^verbatim>\<open>tolower\<close> in the "C" locale (the program never calls \<^verbatim>\<open>setlocale\<close>): the letters
  \<^verbatim>\<open>A\<close> to \<^verbatim>\<open>Z\<close> are mapped to \<^verbatim>\<open>a\<close> to \<^verbatim>\<open>z\<close>, every other character code is
  returned as it is. A character is read as its unsigned code; whether \<^verbatim>\<open>char\<close> is signed
  only changes how names with bytes above 127 are ordered, never which names are equivalent.
\<close>

definition tolower :: "char \<Rightarrow> nat" where
  "tolower c = (let n = of_char c in if 65 \<le> n \<and> n \<le> 90 then n + 32 else n)"

text \<open>\<^verbatim>\<open>std::lexicographical_compare\<close> with a comparison function.\<close>

fun lexicographical_compare :: "('a \<Rightarrow> 'a \<Rightarrow> bool) \<Rightarrow> 'a list \<Rightarrow> 'a list \<Rightarrow> bool" where
  "lexicographical_compare cmp [] [] = False"
| "lexicographical_compare cmp [] (y # ys) = True"
| "lexicographical_compare cmp (x # xs) [] = False"
| "lexicographical_compare cmp (x # xs) (y # ys) =
     (if cmp x y then True
      else if cmp y x then False
      else lexicographical_compare cmp xs ys)"

text \<open>\<^verbatim>\<open>CaseInsensitiveLess::operator()\<close>.\<close>

definition CaseInsensitiveLess :: "string \<Rightarrow> string \<Rightarrow> bool" where
  "CaseInsensitiveLess s1 s2 =
     lexicographical_compare (\<lambda>c1 c2. tolower c1 < tolower c2) s1 s2"

subsection \<open>Printing numbers\<close>

definition digit_char :: "int \<Rightarrow> char" where
  "digit_char d = char_of (48 + d)"

text \<open>The decimal digits of a number that is not negative.\<close>

function dec_digits :: "int \<Rightarrow> string" where
  "dec_digits n =
     (if n < 10 then [digit_char n] else dec_digits (n div 10) @ [digit_char (n mod 10)])"
  by pat_completeness auto
termination
  by (relation "measure nat") auto

declare dec_digits.simps [simp del]

text \<open>\<^verbatim>\<open>os << n\<close> for an \<^verbatim>\<open>int\<close>.\<close>

definition show_int :: "int \<Rightarrow> string" where
  "show_int i = (if i < 0 then CHR ''-'' # dec_digits (- i) else dec_digits i)"

definition round_half_even :: "rat \<Rightarrow> int" where
  "round_half_even x =
     (let n = \<lfloor>x\<rfloor>; f = x - of_int n
      in if f < 1 / 2 then n else if 1 / 2 < f then n + 1 else if even n then n else n + 1)"

text \<open>
  \<^verbatim>\<open>std::to_string(double)\<close> prints as \<^verbatim>\<open>printf("%f")\<close> does: the value in decimal with six
  digits after the point, rounded to nearest, ties to even. A finite \<^verbatim>\<open>double\<close> is a rational
  number and is modelled as one.
\<close>

definition to_string :: "rat \<Rightarrow> string" where
  "to_string v =
     (let q = round_half_even (\<bar>v\<bar> * 1000000);
          frac = dec_digits (q mod 1000000)
      in (if v < 0 then ''-'' else '''') @ dec_digits (q div 1000000) @ ''.''
           @ replicate (6 - length frac) CHR ''0'' @ frac)"

subsection \<open>Single-precision values and \<^verbatim>\<open>std::stof\<close>\<close>

text \<open>
  The values of \<^verbatim>\<open>float\<close> (IEEE binary32): the finite ones are rationals, then the two
  infinities and NaN. The sign of zero is not kept; no comparison or conversion below
  depends on it.
\<close>

datatype float = Finite rat | PosInf | NegInf | NaN

definition pow2 :: "int \<Rightarrow> rat" where
  "pow2 e = (if 0 \<le> e then 2 ^ nat e else 1 / 2 ^ nat (- e))"

definition pow10 :: "int \<Rightarrow> rat" where
  "pow10 e = (if 0 \<le> e then 10 ^ nat e else 1 / 10 ^ nat (- e))"

text \<open>For \<open>q > 0\<close>, the exponent \<open>e\<close> with \<open>2 ^ e \<le> q < 2 ^ (e + 1)\<close>.\<close>

definition ilog2 :: "rat \<Rightarrow> int" where
  "ilog2 q = (let (a, b) = quotient_of q; e = bitlen a - bitlen b
              in if pow2 e \<le> q then e else e - 1)"

text \<open>
  Rounding to the nearest multiple of \<open>2 ^ (e - 23)\<close>, ties to even: for a number with
  the exponent \<open>e\<close> this keeps 24 significant bits.
\<close>

definition round_at :: "int \<Rightarrow> rat \<Rightarrow> rat" where
  "round_at e q =
     sgn q * (of_int (round_half_even (\<bar>q\<bar> / pow2 (e - 23))) * pow2 (e - 23))"

text \<open>
  Rounding to the nearest binary32 value: 24 significant bits, the exponent not below
  \<open>-126\<close> (subnormal numbers share the spacing \<open>2 ^ -149\<close>). The result may reach
  \<open>2 ^ 128\<close>, which the callers treat as overflow.
\<close>

definition round_binary32 :: "rat \<Rightarrow> rat" where
  "round_binary32 q = (if q = 0 then 0 else round_at (max (ilog2 \<bar>q\<bar>) (- 126)) q)"

text \<open>
  A number is tiny when, rounded to 24 significant bits with no lower limit on the
  exponent, it is still below the normal range (tininess is detected after rounding).
\<close>

definition tiny :: "rat \<Rightarrow> bool" where
  "tiny q = (q \<noteq> 0 \<and> \<bar>round_at (ilog2 \<bar>q\<bar>) q\<bar> < pow2 (- 126))"

text \<open>The conversion of an \<^verbatim>\<open>int\<close> to \<^verbatim>\<open>float\<close>, as in \<^verbatim>\<open>stof(v) < min\<close>.\<close>

definition float_of_int :: "int \<Rightarrow> float" where
  "float_of_int n = Finite (round_binary32 (of_int n))"

text \<open>\<^verbatim>\<open><\<close> on \<^verbatim>\<open>float\<close>: false as soon as one side is NaN.\<close>

fun float_less :: "float \<Rightarrow> float \<Rightarrow> bool" where
  "float_less NaN _ = False"
| "float_less _ NaN = False"
| "float_less (Finite a) (Finite b) = (a < b)"
| "float_less (Finite a) PosInf = True"
| "float_less (Finite a) NegInf = False"
| "float_less PosInf _ = False"
| "float_less NegInf NegInf = False"
| "float_less NegInf _ = True"

text \<open>Discarding the fractional part of a number (truncation toward zero).\<close>

definition trunc_zero :: "rat \<Rightarrow> int" where
  "trunc_zero r = (if r < 0 then - \<lfloor>- r\<rfloor> else \<lfloor>r\<rfloor>)"

text \<open>
  \<^verbatim>\<open>int(x)\<close> for a \<^verbatim>\<open>float\<close>: the fractional part is discarded; the behaviour is
  undefined when the truncated value is not an \<^verbatim>\<open>int\<close> (32 bits).
\<close>

definition int_of_float :: "float \<Rightarrow> fault + int" where
  "int_of_float x =
     (case x of
        Finite r \<Rightarrow>
          if - 2147483648 \<le> trunc_zero r \<and> trunc_zero r \<le> 2147483647
          then Inr (trunc_zero r) else Inl undefined_behaviour
      | _ \<Rightarrow> Inl undefined_behaviour)"

text \<open>
  \<^verbatim>\<open>std::stof(s)\<close> is \<^verbatim>\<open>strtof\<close> with its errors turned into exceptions. The text is read
  as: white space, an optional sign, then the longest prefix that is \<^verbatim>\<open>inf\<close> or
  \<^verbatim>\<open>nan\<close> (in any case), a hexadecimal number (\<^verbatim>\<open>0x\<close>, hexadecimal digits with an optional
  point, an optional binary exponent \<^verbatim>\<open>p\<close>), or a decimal number (digits with an optional
  point, an optional exponent \<^verbatim>\<open>e\<close>). What follows the number is ignored. There is
  \<^verbatim>\<open>invalid_argument\<close> when no number can be read and \<^verbatim>\<open>out_of_range\<close> when
  \<^verbatim>\<open>strtof\<close> reports \<^verbatim>\<open>ERANGE\<close>: the rounded value overflows, or the number is
  tiny and its rounded value inexact (the underflow of IEEE 754). Whether \<^verbatim>\<open>ERANGE\<close>
  is set below the normal range is implementation-defined in C, and a C library may round
  or report differently there; the value is the correctly rounded one here.
\<close>

definition isspace :: "char \<Rightarrow> bool" where
  "isspace c = (of_char c \<in> set [32, 9, 10, 11, 12, 13 :: nat])"

definition isdigit :: "char \<Rightarrow> bool" where
  "isdigit c = (48 \<le> (of_char c :: nat) \<and> (of_char c :: nat) \<le> 57)"

definition isxdigit :: "char \<Rightarrow> bool" where
  "isxdigit c = (isdigit c \<or> 97 \<le> tolower c \<and> tolower c \<le> 102)"

definition xdigit_val :: "char \<Rightarrow> int" where
  "xdigit_val c = (if isdigit c then of_char c - 48 else int (tolower c) - 87)"

definition digits_val :: "int \<Rightarrow> string \<Rightarrow> int" where
  "digits_val base ds = foldl (\<lambda>acc c. acc * base + xdigit_val c) 0 ds"

text \<open>An optional sign: whether it is a minus, and the rest.\<close>

fun read_sign :: "string \<Rightarrow> bool \<times> string" where
  "read_sign [] = (False, [])"
| "read_sign (c # t) =
     (if c = CHR ''-'' then (True, t) else if c = CHR ''+'' then (False, t) else (False, c # t))"

text \<open>
  Digits with an optional point: the digits before and after the point and the rest of
  the text, or nothing when there is no digit at all.
\<close>

definition read_mantissa :: "(char \<Rightarrow> bool) \<Rightarrow> string \<Rightarrow> (string \<times> string \<times> string) option" where
  "read_mantissa isd s =
     (let ip = takeWhile isd s; r1 = dropWhile isd s;
          (fp, r2) = (case r1 of
                        [] \<Rightarrow> ([], r1)
                      | c # t \<Rightarrow> if c = CHR ''.'' then (takeWhile isd t, dropWhile isd t)
                                 else ([], r1))
      in if ip = [] \<and> fp = [] then None else Some (ip, fp, r2))"

text \<open>
  An optional exponent part: the marker, an optional sign and at least one decimal digit;
  anything else is not part of the number and counts as exponent 0.
\<close>

definition read_exponent :: "nat \<Rightarrow> string \<Rightarrow> int" where
  "read_exponent marker s =
     (case s of
        [] \<Rightarrow> 0
      | c # t \<Rightarrow>
          if tolower c = marker then
            (let (neg, u) = read_sign t; ds = takeWhile isdigit u
             in if ds = [] then 0
                else if neg then - digits_val 10 ds else digits_val 10 ds)
          else 0)"

datatype parsed = Number rat | Infinity | NotANumber

definition read_unsigned :: "string \<Rightarrow> parsed option" where
  "read_unsigned s =
     (if map tolower (take 3 s) = map of_char ''inf'' then Some Infinity
      else if map tolower (take 3 s) = map of_char ''nan'' then Some NotANumber
      else
        (case (if map tolower (take 2 s) = map of_char ''0x''
               then read_mantissa isxdigit (drop 2 s) else None) of
           Some (ip, fp, r) \<Rightarrow>
             Some (Number (of_int (digits_val 16 (ip @ fp))
                           * pow2 (read_exponent 112 r - 4 * int (length fp))))
         | None \<Rightarrow>
             (case read_mantissa isdigit s of
                Some (ip, fp, r) \<Rightarrow>
                  Some (Number (of_int (digits_val 10 (ip @ fp))
                                * pow10 (read_exponent 101 r - int (length fp))))
              | None \<Rightarrow> None)))"

definition stof :: "string \<Rightarrow> fault + float" where
  "stof s =
     (let (neg, u) = read_sign (dropWhile isspace s)
      in case read_unsigned u of
           None \<Rightarrow> Inl invalid_argument
         | Some Infinity \<Rightarrow> Inr (if neg then NegInf else PosInf)
         | Some NotANumber \<Rightarrow> Inr NaN
         | Some (Number q) \<Rightarrow>
             (let r = round_binary32 q
              in if 2 ^ 128 \<le> r \<or> (tiny q \<and> r \<noteq> q) then Inl out_of_range
                 else Inr (Finite (if neg then - r else r))))"

section \<open>Options\<close>

text \<open>
  The functions an option can carry as its \<^verbatim>\<open>on_change\<close> action are the seven defined at
  the top of the file. What they do (clearing the search, resizing the hash table, starting
  the logger, ...) lies outside the file; each receives the option by \<^verbatim>\<open>const\<close> reference
  and cannot change it. A call is recorded as the action together with the option it was
  handed.
\<close>

datatype OnChange =
  on_clear_hash | on_hash_size | on_logger | on_threads | on_tb_path | on_piece_value | on_variant

text \<open>
  The class \<^verbatim>\<open>Option\<close>, with the fields its constructors initialise (the class is
  declared in a header outside the file). The fields \<^verbatim>\<open>min\<close> and \<^verbatim>\<open>max\<close> are \<open>minv\<close>
  and \<open>maxv\<close> here. No constructor sets \<^verbatim>\<open>idx\<close>: it is \<open>None\<close> until
  \<^verbatim>\<open>operator<<\<close> assigns it. A null \<^verbatim>\<open>on_change\<close> is \<open>None\<close>.
\<close>

record Option =
  defaultValue :: string
  currentValue :: string
  type :: string
  minv :: int
  maxv :: int
  comboValues :: "string list"
  idx :: "nat option"
  on_change :: "OnChange option"

type_synonym call = "OnChange \<times> Option"

text \<open>The five constructors, in the order of the file.\<close>

definition Option_string :: "string \<Rightarrow> OnChange option \<Rightarrow> Option" where
  "Option_string v f =
     \<lparr>defaultValue = v, currentValue = v, type = ''string'', minv = 0, maxv = 0,
      comboValues = [], idx = None, on_change = f\<rparr>"

definition Option_combo :: "string \<Rightarrow> string list \<Rightarrow> OnChange option \<Rightarrow> Option" where
  "Option_combo v combo f =
     \<lparr>defaultValue = v, currentValue = v, type = ''combo'', minv = 0, maxv = 0,
      comboValues = combo, idx = None, on_change = f\<rparr>"

definition Option_check :: "bool \<Rightarrow> OnChange option \<Rightarrow> Option" where
  "Option_check v f =
     \<lparr>defaultValue = (if v then ''true'' else ''false''),
      currentValue = (if v then ''true'' else ''false''),
      type = ''check'', minv = 0, maxv = 0, comboValues = [], idx = None, on_change = f\<rparr>"

definition Option_button :: "OnChange option \<Rightarrow> Option" where
  "Option_button f =
     \<lparr>defaultValue = [], currentValue = [], type = ''button'', minv = 0, maxv = 0,
      comboValues = [], idx = None, on_change = f\<rparr>"

definition Option_spin :: "rat \<Rightarrow> int \<Rightarrow> int \<Rightarrow> OnChange option \<Rightarrow> Option" where
  "Option_spin v lo hi f =
     \<lparr>defaultValue = to_string v, currentValue = to_string v, type = ''spin'',
      minv = lo, maxv = hi, comboValues = [], idx = None, on_change = f\<rparr>"

text \<open>\<^verbatim>\<open>Option::operator==(const char*)\<close>.\<close>

definition Option_eq :: "Option \<Rightarrow> string \<Rightarrow> fault + bool" where
  "Option_eq opt s =
     (if type opt \<noteq> ''combo'' then Inl assertion_failure
      else Inr (\<not> CaseInsensitiveLess (currentValue opt) s
                \<and> \<not> CaseInsensitiveLess s (currentValue opt)))"

text \<open>
  The condition of the first \<^verbatim>\<open>if\<close> of \<^verbatim>\<open>Option::operator=(const string&)\<close>, its four
  disjuncts evaluated from left to right; \<^verbatim>\<open>stof\<close> is reached only for a spin option
  and a text that is not empty, and it is called once for each bound.
\<close>

definition rejects :: "Option \<Rightarrow> string \<Rightarrow> fault + bool" where
  "rejects opt v =
     (if type opt \<noteq> ''button'' \<and> v = [] then Inr True
      else if type opt = ''check'' \<and> v \<noteq> ''true'' \<and> v \<noteq> ''false'' then Inr True
      else if type opt = ''combo'' \<and> v \<notin> set (comboValues opt) then Inr True
      else if type opt = ''spin'' then
        (case stof v of
           Inl e \<Rightarrow> Inl e
         | Inr x \<Rightarrow>
             if float_less x (float_of_int (minv opt)) then Inr True
             else (case stof v of
                     Inl e \<Rightarrow> Inl e
                   | Inr y \<Rightarrow> Inr (float_less (float_of_int (maxv opt)) y)))
      else Inr False)"

text \<open>
  \<^verbatim>\<open>Option::operator=(const string&)\<close>: the option afterwards and the calls of its
  \<^verbatim>\<open>on_change\<close> action, or the fault that ended the call.
\<close>

definition Option_assign :: "Option \<Rightarrow> string \<Rightarrow> fault + Option \<times> call list" where
  "Option_assign opt v =
     (if type opt = [] then Inl assertion_failure
      else
        (case rejects opt v of
           Inl e \<Rightarrow> Inl e
         | Inr True \<Rightarrow> Inr (opt, [])
         | Inr False \<Rightarrow>
             (let opt' = (if type opt \<noteq> ''button'' then opt\<lparr>currentValue := v\<rparr> else opt)
              in Inr (opt', case on_change opt' of None \<Rightarrow> [] | Some f \<Rightarrow> [(f, opt')]))))"

text \<open>Assignments one after the other to the same option; the calls are collected.\<close>

fun assign_all :: "Option \<Rightarrow> string list \<Rightarrow> fault + Option \<times> call list" where
  "assign_all opt [] = Inr (opt, [])"
| "assign_all opt (v # vs) =
     (case Option_assign opt v of
        Inl e \<Rightarrow> Inl e
      | Inr (opt', cs) \<Rightarrow>
          (case assign_all opt' vs of
             Inl e \<Rightarrow> Inl e
           | Inr (opt'', cs') \<Rightarrow> Inr (opt'', cs @ cs')))"

section \<open>The options map\<close>

text \<open>
  \<^verbatim>\<open>OptionsMap\<close> is a \<^verbatim>\<open>std::map\<close> from names to options ordered by
  \<^verbatim>\<open>CaseInsensitiveLess\<close>: the list of its entries in the order in which the map is
  iterated. The program state the file works on is the global map \<^verbatim>\<open>Options\<close> and the
  function-static counter \<^verbatim>\<open>insert_order\<close> of \<^verbatim>\<open>Option::operator<<\<close>. The counter is a
  \<^verbatim>\<open>size_t\<close>; it is a natural number here, since it counts the calls of one operator and
  cannot wrap before \<open>2 ^ 64\<close> of them.
\<close>

type_synonym OptionsMap = "(string \<times> Option) list"

record state =
  Options :: OptionsMap
  insert_order :: nat

definition initial_state :: state where
  "initial_state = \<lparr>Options = [], insert_order = 0\<rparr>"

text \<open>
  Looking a name up: the first entry whose key is not less than the name is the one, if the
  name is not less than its key either.
\<close>

fun map_find :: "string \<Rightarrow> OptionsMap \<Rightarrow> Option option" where
  "map_find k [] = None"
| "map_find k ((k', v) # m) =
     (if CaseInsensitiveLess k' k then map_find k m
      else if CaseInsensitiveLess k k' then None
      else Some v)"

text \<open>
  \<^verbatim>\<open>m[k]\<close> overwritten with \<open>v\<close>: an entry with an equivalent key keeps its key and gets
  the value, otherwise a new entry is inserted at its place in the order.
\<close>

fun map_put :: "string \<Rightarrow> Option \<Rightarrow> OptionsMap \<Rightarrow> OptionsMap" where
  "map_put k v [] = [(k, v)]"
| "map_put k v ((k', v') # m) =
     (if CaseInsensitiveLess k' k then (k', v') # map_put k v m
      else if CaseInsensitiveLess k k' then (k, v) # (k', v') # m
      else (k', v) # m)"

text \<open>
  \<^verbatim>\<open>Option::operator<<\<close>: the target becomes a copy of the option given and takes the
  counter as its \<^verbatim>\<open>idx\<close>; the counter is incremented.
\<close>

definition Option_shl :: "Option \<Rightarrow> nat \<Rightarrow> Option \<times> nat" where
  "Option_shl opt counter = (opt\<lparr>idx := Some counter\<rparr>, counter + 1)"

text \<open>The statement \<^verbatim>\<open>o[name] << opt\<close> of \<^verbatim>\<open>init\<close>.\<close>

definition add_option :: "state \<Rightarrow> string \<times> Option \<Rightarrow> state" where
  "add_option s d =
     (let (e, n) = Option_shl (snd d) (insert_order s)
      in \<lparr>Options = map_put (fst d) e (Options s), insert_order = n\<rparr>)"

definition add_options :: "state \<Rightarrow> (string \<times> Option) list \<Rightarrow> state" where
  "add_options s ds = foldl add_option s ds"

text \<open>
  \<^verbatim>\<open>init\<close>, called on the global map. \<^verbatim>\<open>Is64Bit\<close> is declared in a header outside the
  file and is a parameter. The numeric literals are converted to \<^verbatim>\<open>double\<close> by the spin
  constructor.
\<close>

definition MaxHashMB :: "bool \<Rightarrow> int" where
  "MaxHashMB Is64Bit = (if Is64Bit then 131072 else 2048)"

definition init_options :: "bool \<Rightarrow> (string \<times> Option) list" where
  "init_options Is64Bit =
   [(''Protocol'', Option_combo ''uci'' [''uci'', ''xboard''] None),
    (''Debug Log File'', Option_string [] (Some on_logger)),
    (''Contempt'', Option_spin 21 (- 100) 100 None),
    (''Analysis Contempt'', Option_combo ''Both'' [''Both'', ''Off'', ''White'', ''Black''] None),
    (''Threads'', Option_spin 1 1 512 (Some on_threads)),
    (''Hash'', Option_spin 16 1 (MaxHashMB Is64Bit) (Some on_hash_size)),
    (''Clear Hash'', Option_button (Some on_clear_hash)),
    (''Ponder'', Option_check False None),
    (''MultiPV'', Option_spin 1 1 500 None),
    (''Skill Level'', Option_spin 20 0 20 None),
    (''Move Overhead'', Option_spin 30 0 5000 None),
    (''Minimum Thinking Time'', Option_spin 20 0 5000 None),
    (''Slow Mover'', Option_spin 84 10 1000 None),
    (''nodestime'', Option_spin 0 0 10000 None),
    (''UCI_Variant'', Option_combo ''musketeer'' [''musketeer''] (Some on_variant)),
    (''UCI_Chess960'', Option_check False None),
    (''UCI_AnalyseMode'', Option_check False None),
    (''SyzygyPath'', Option_string ''<empty>'' (Some on_tb_path)),
    (''SyzygyProbeDepth'', Option_spin 1 1 100 None),
    (''Syzygy50MoveRule'', Option_check True None),
    (''SyzygyProbeLimit'', Option_spin 6 0 6 None),
    (''CannonValueMg'', Option_spin 1710 710 2710 (Some on_piece_value)),
    (''CannonValueEg'', Option_spin 2239 1239 3239 (Some on_piece_value)),
    (''LeopardValueMg'', Option_spin 1648 648 2648 (Some on_piece_value)),
    (''LeopardValueEg'', Option_spin 2014 1014 3014 (Some on_piece_value)),
    (''ArchbishopValueMg'', Option_spin 2036 1036 3036 (Some on_piece_value)),
    (''ArchbishopValueEg'', Option_spin 2202 1202 3202 (Some on_piece_value)),
    (''ChancellorValueMg'', Option_spin 2251 1251 3251 (Some on_piece_value)),
    (''ChancellorValueEg'', Option_spin 2344 1344 3344 (Some on_piece_value)),
    (''SpiderValueMg'', Option_spin 2321 1321 3321 (Some on_piece_value)),
    (''SpiderValueEg'', Option_spin 2718 1718 3718 (Some on_piece_value)),
    (''DragonValueMg'', Option_spin 3280 2280 4280 (Some on_piece_value)),
    (''DragonValueEg'', Option_spin 2769 1769 3769 (Some on_piece_value)),
    (''UnicornValueMg'', Option_spin 1584 584 2584 (Some on_piece_value)),
    (''UnicornValueEg'', Option_spin 1772 772 2772 (Some on_piece_value)),
    (''HawkValueMg'', Option_spin 1537 537 2537 (Some on_piece_value)),
    (''HawkValueEg'', Option_spin 1561 561 2561 (Some on_piece_value)),
    (''ElephantValueMg'', Option_spin 1770 770 2770 (Some on_piece_value)),
    (''ElephantValueEg'', Option_spin 2000 1000 3000 (Some on_piece_value)),
    (''FortressValueMg'', Option_spin 1956 956 2956 (Some on_piece_value)),
    (''FortressValueEg'', Option_spin 2100 1100 3100 (Some on_piece_value))]"

definition init :: "bool \<Rightarrow> state \<Rightarrow> state" where
  "init Is64Bit s = add_options s (init_options Is64Bit)"

section \<open>Printing the options\<close>

text \<open>
  The inner loop of \<^verbatim>\<open>operator<<(std::ostream&, const OptionsMap&)\<close>: the first entry, in
  the order of the map, whose \<^verbatim>\<open>idx\<close> is the index looked for and whose key is not
  \<^verbatim>\<open>"Protocol"\<close>; the \<^verbatim>\<open>break\<close> ends the search there. An \<^verbatim>\<open>idx\<close> that was never
  assigned matches no index.
\<close>

definition select :: "nat \<Rightarrow> OptionsMap \<Rightarrow> (string \<times> Option) option" where
  "select i om = find (\<lambda>it. idx (snd it) = Some i \<and> fst it \<noteq> ''Protocol'') om"

text \<open>What the second branch (the UCI format) prints for an entry.\<close>

definition uci_line :: "string \<times> Option \<Rightarrow> fault + string" where
  "uci_line it =
     (let opt = snd it;
          s1 = ''\<newline>option name '' @ fst it @ '' type '' @ type opt;
          s2 = (if type opt = ''string'' \<or> type opt = ''check'' \<or> type opt = ''combo''
                then '' default '' @ defaultValue opt else []);
          s3 = (if type opt = ''combo''
                then concat (map (\<lambda>value. '' var '' @ value) (comboValues opt)) else [])
      in if type opt = ''spin'' then
           (case stof (defaultValue opt) of
              Inl e \<Rightarrow> Inl e
            | Inr x \<Rightarrow>
                (case int_of_float x of
                   Inl e \<Rightarrow> Inl e
                 | Inr n \<Rightarrow>
                     Inr (s1 @ s2 @ s3 @ '' default '' @ show_int n
                          @ '' min '' @ show_int (minv opt)
                          @ '' max '' @ show_int (maxv opt))))
         else Inr (s1 @ s2 @ s3))"

text \<open>What the first branch (the xboard format) prints for an entry.\<close>

definition xboard_line :: "string \<times> Option \<Rightarrow> fault + string" where
  "xboard_line it =
     (let opt = snd it;
          s1 = ''\<newline>feature option='' @ [CHR 0x22] @ fst it @ '' -'' @ type opt;
          s2 = (if type opt = ''string'' \<or> type opt = ''combo'' then '' '' @ defaultValue opt
                else if type opt = ''check''
                then '' '' @ show_int (if defaultValue opt = ''true'' then 1 else 0)
                else []);
          s3 = (if type opt = ''combo''
                then concat (map (\<lambda>value. '' /// '' @ value)
                               (filter (\<lambda>value. value \<noteq> defaultValue opt) (comboValues opt)))
                else [])
      in if type opt = ''spin'' then
           (case stof (defaultValue opt) of
              Inl e \<Rightarrow> Inl e
            | Inr x \<Rightarrow>
                (case int_of_float x of
                   Inl e \<Rightarrow> Inl e
                 | Inr n \<Rightarrow>
                     Inr (s1 @ s2 @ s3 @ '' '' @ show_int n
                          @ '' '' @ show_int (minv opt)
                          @ '' '' @ show_int (maxv opt) @ [CHR 0x22])))
         else Inr (s1 @ s2 @ s3 @ [CHR 0x22]))"

text \<open>
  The outer loop over the indices: the text written for them, or the fault that ended the
  printing (the text written before it is not kept).
\<close>

fun print_loop ::
  "(string \<times> Option \<Rightarrow> fault + string) \<Rightarrow> OptionsMap \<Rightarrow> nat list \<Rightarrow> fault + string" where
  "print_loop line om [] = Inr []"
| "print_loop line om (i # is) =
     (case select i om of
        None \<Rightarrow> print_loop line om is
      | Some it \<Rightarrow>
          (case line it of
             Inl e \<Rightarrow> Inl e
           | Inr t \<Rightarrow>
               (case print_loop line om is of
                  Inl e \<Rightarrow> Inl e
                | Inr u \<Rightarrow> Inr (t @ u))))"

text \<open>
  \<^verbatim>\<open>operator<<(std::ostream&, const OptionsMap&)\<close>. The format is chosen by
  \<^verbatim>\<open>Options["Protocol"] == "xboard"\<close> on the global map, whichever map is printed. Were
  there no such entry, \<^verbatim>\<open>operator[]\<close> would create a default option, which is a button,
  and the assertion of \<^verbatim>\<open>operator==\<close> would fail.
\<close>

definition OptionsMap_print :: "OptionsMap \<Rightarrow> OptionsMap \<Rightarrow> fault + string" where
  "OptionsMap_print global om =
     (case map_find ''Protocol'' global of
        None \<Rightarrow> Inl assertion_failure
      | Some p \<Rightarrow>
          (case Option_eq p ''xboard'' of
             Inl e \<Rightarrow> Inl e
           | Inr b \<Rightarrow> print_loop (if b then xboard_line else uci_line) om [0..<length om]))"

text \<open>The entries that are printed, in the order in which they are.\<close>

definition visited :: "OptionsMap \<Rightarrow> (string \<times> Option) list" where
  "visited om = List.map_filter (\<lambda>i. select i om) [0..<length om]"

section \<open>The words of the specification\<close>



text \<open>
  The declarations of a list with the index each one is given when they are made one
  after the other, the counter starting at \<open>n\<close>.
\<close>

fun numbered :: "nat \<Rightarrow> (string \<times> Option) list \<Rightarrow> (string \<times> Option) list" where
  "numbered n [] = []"
| "numbered n (d # ds) = (fst d, (snd d)\<lparr>idx := Some n\<rparr>) # numbered (Suc n) ds"

text \<open>
  The text for a list of entries printed one after the other, or the fault that ended
  the printing.
\<close>

fun print_entries ::
  "(string \<times> Option \<Rightarrow> fault + string) \<Rightarrow> (string \<times> Option) list \<Rightarrow> fault + string" where
  "print_entries line [] = Inr []"
| "print_entries line (it # its) =
     (case line it of
        Inl e \<Rightarrow> Inl e
      | Inr t \<Rightarrow>
          (case print_entries line its of
             Inl e \<Rightarrow> Inl e
           | Inr u \<Rightarrow> Inr (t @ u)))"

section \<open>Assignment\<close>

text \<open>Two names are equivalent in the order exactly when they agree up to case.\<close>

lemma ci_equiv:
  "(\<not> CaseInsensitiveLess a b \<and> \<not> CaseInsensitiveLess b a) \<longleftrightarrow> map tolower a = map tolower b"
  unfolding CaseInsensitiveLess_def
proof (induction a arbitrary: b)
  case Nil
  then show ?case by (cases b) simp_all
next
  case (Cons x xs)
  show ?case
  proof (cases b)
    case Nil
    then show ?thesis by simp
  next
    case (Cons y ys)
    with Cons.IH [of ys] show ?thesis by auto
  qed
qed


lemma rejects_fault_iff:
  "rejects opt v = Inl e \<longleftrightarrow> type opt = ''spin'' \<and> v \<noteq> [] \<and> stof v = Inl e"
  by (auto simp: rejects_def split: sum.splits)

lemma assign_rejected:
  "type opt \<noteq> [] \<Longrightarrow> rejects opt v = Inr True \<Longrightarrow> Option_assign opt v = Inr (opt, [])"
  by (simp add: Option_assign_def)

lemma assign_accepted:
  "type opt \<noteq> [] \<Longrightarrow> rejects opt v = Inr False \<Longrightarrow>
   Option_assign opt v =
     Inr (if type opt \<noteq> ''button'' then opt\<lparr>currentValue := v\<rparr> else opt,
          case on_change opt of
            None \<Rightarrow> []
          | Some f \<Rightarrow> [(f, if type opt \<noteq> ''button'' then opt\<lparr>currentValue := v\<rparr> else opt)])"
  by (simp add: Option_assign_def Let_def)

lemma assign_fault:
  "type opt \<noteq> [] \<Longrightarrow> rejects opt v = Inl e \<Longrightarrow> Option_assign opt v = Inl e"
  by (simp add: Option_assign_def)

lemma button_not_rejected: "type opt = ''button'' \<Longrightarrow> rejects opt v = Inr False"
  by (simp add: rejects_def)

lemma string_rejects: "type opt = ''string'' \<Longrightarrow> rejects opt v = Inr (v = [])"
  by (simp add: rejects_def)

subsection \<open>The bounds of a spin option as single-precision numbers\<close>








subsection \<open>The claims on assignment\<close>




text \<open>
  C2. When the condition of the rejection is false (the value passes the validation of
  the kind), an option that is not a button gets the value as its current value, its
  action, if it has one, is called once with the option as it is after that, and the
  option after that is what is returned; a button is returned as it is and its action, if
  it has one, is called once with it.
\<close>

theorem assign_valid_stores_and_calls:
  assumes "type opt \<noteq> []" and "rejects opt v = Inr False"
  shows "(type opt \<noteq> ''button'' \<longrightarrow>
            Option_assign opt v =
              Inr (opt\<lparr>currentValue := v\<rparr>,
                   case on_change opt of
                     None \<Rightarrow> []
                   | Some f \<Rightarrow> [(f, opt\<lparr>currentValue := v\<rparr>)]))
         \<and> (type opt = ''button'' \<longrightarrow>
            Option_assign opt v =
              Inr (opt, case on_change opt of None \<Rightarrow> [] | Some f \<Rightarrow> [(f, opt)]))"
  using assms by (simp add: assign_accepted)

theorem assign_valid_stores_and_calls_witness:
  "Option_assign (Option_spin 1 1 512 (Some on_threads)) ''4''
     = Inr ((Option_spin 1 1 512 (Some on_threads))\<lparr>currentValue := ''4''\<rparr>,
            [(on_threads, (Option_spin 1 1 512 (Some on_threads))\<lparr>currentValue := ''4''\<rparr>)])
   \<and> Option_assign (Option_button (Some on_clear_hash)) ''x''
     = Inr (Option_button (Some on_clear_hash),
            [(on_clear_hash, Option_button (Some on_clear_hash))])"
proof -
  let ?t = "Option_spin 1 1 512 (Some on_threads)"
  let ?b = "Option_button (Some on_clear_hash)"
  have ty: "type ?t \<noteq> []" and kind: "type ?t \<noteq> ''button''"
    and hook: "on_change ?t = Some on_threads"
    by (simp_all add: Option_spin_def)
  have tyb: "type ?b \<noteq> []" and kindb: "type ?b = ''button''"
    and hookb: "on_change ?b = Some on_clear_hash"
    by (simp_all add: Option_button_def)
  have ok: "rejects ?t ''4'' = Inr False" by code_simp
  have okb: "rejects ?b ''x'' = Inr False" by code_simp
  from assign_valid_stores_and_calls [OF ty ok] assign_valid_stores_and_calls [OF tyb okb]
    kind hook kindb hookb
  show ?thesis by simp
qed

text \<open>
  C7. An assignment to a button is never rejected, whatever the value, the empty one
  included: the option is returned as it was, nothing is stored, and the action of the
  button is called exactly once, with the button (a button without an action has none
  to call).
\<close>

theorem button_assign_calls_once:
  assumes "type opt = ''button''"
  shows "rejects opt v = Inr False
         \<and> Option_assign opt v
             = Inr (opt, case on_change opt of None \<Rightarrow> [] | Some f \<Rightarrow> [(f, opt)])
         \<and> (\<forall>f. on_change opt = Some f \<longrightarrow>
               Option_assign opt v = Inr (opt, [(f, opt)])
               \<and> Option_assign opt [] = Inr (opt, [(f, opt)]))"
proof -
  from assms have ty: "type opt \<noteq> []" by auto
  have "Option_assign opt w
          = Inr (opt, case on_change opt of None \<Rightarrow> [] | Some f \<Rightarrow> [(f, opt)])" for w
    using assign_accepted [OF ty button_not_rejected [OF assms], of w] assms by simp
  then show ?thesis using button_not_rejected [OF assms] by simp
qed

theorem button_assign_calls_once_witness:
  "Option_assign (Option_button (Some on_clear_hash)) []
     = Inr (Option_button (Some on_clear_hash),
            [(on_clear_hash, Option_button (Some on_clear_hash))])
   \<and> Option_assign (Option_button (Some on_clear_hash)) ''anything''
     = Inr (Option_button (Some on_clear_hash),
            [(on_clear_hash, Option_button (Some on_clear_hash))])"
proof -
  let ?b = "Option_button (Some on_clear_hash)"
  have kind: "type ?b = ''button''" and hook: "on_change ?b = Some on_clear_hash"
    by (simp_all add: Option_button_def)
  from button_assign_calls_once [OF kind, of "''anything''"] hook show ?thesis by blast
qed

text \<open>
  C8. An assignment to a spin option of a text that is not empty and from which
  \<^verbatim>\<open>stof\<close> can read no number is not a silent rejection: nothing checks the text before
  the comparison with the bounds, the exception of \<^verbatim>\<open>stof\<close> leaves the assignment, and
  no option is returned. The empty text never reaches \<^verbatim>\<open>stof\<close>: the first test
  rejects it silently.
\<close>

theorem spin_unparseable_faults:
  assumes "type opt = ''spin''" and "v \<noteq> []" and "stof v = Inl e"
  shows "Option_assign opt v = Inl e"
proof -
  from assms(1) have ty: "type opt \<noteq> []" by auto
  from assms have "rejects opt v = Inl e" by (simp add: rejects_fault_iff)
  with ty show ?thesis by (rule assign_fault)
qed

theorem spin_unparseable_faults_witness:
  "Option_assign (Option_spin 1 1 512 (Some on_threads)) ''abc'' = Inl invalid_argument"
proof -
  let ?t = "Option_spin 1 1 512 (Some on_threads)"
  have kind: "type ?t = ''spin''" by (simp add: Option_spin_def)
  have nonempty: "''abc'' \<noteq> []" by simp
  have bad: "stof ''abc'' = Inl invalid_argument" by code_simp
  from spin_unparseable_faults [OF kind nonempty bad] show ?thesis .
qed

text \<open>
  The empty text cannot be read as a number either, but a spin option rejects it silently.
\<close>

theorem spin_empty_text_counterexample:
  "stof [] = Inl invalid_argument
   \<and> Option_assign (Option_spin 1 1 512 (Some on_threads)) []
       = Inr (Option_spin 1 1 512 (Some on_threads), [])"
  by code_simp

text \<open>
  C9. An accepted assignment to an option that is not a button calls the action of the
  option even when the value assigned is the current value: the option is returned as it
  was, and the action has been called once with it.
\<close>

theorem accepted_assign_of_same_value_calls:
  assumes "type opt \<noteq> []" and "type opt \<noteq> ''button''"
    and "rejects opt (currentValue opt) = Inr False"
  shows "Option_assign opt (currentValue opt)
           = Inr (opt, case on_change opt of None \<Rightarrow> [] | Some f \<Rightarrow> [(f, opt)])
         \<and> (\<forall>f. on_change opt = Some f \<longrightarrow>
               Option_assign opt (currentValue opt) = Inr (opt, [(f, opt)]))"
  using assign_accepted [OF assms(1) assms(3)] assms(2) by (simp split: option.splits)

theorem accepted_assign_of_same_value_calls_witness:
  "currentValue (Option_spin 1 1 512 (Some on_threads)) = ''1.000000''
   \<and> Option_assign (Option_spin 1 1 512 (Some on_threads)) ''1.000000''
       = Inr (Option_spin 1 1 512 (Some on_threads),
              [(on_threads, Option_spin 1 1 512 (Some on_threads))])"
proof -
  let ?t = "Option_spin 1 1 512 (Some on_threads)"
  have ty: "type ?t \<noteq> []" and kind: "type ?t \<noteq> ''button''"
    and hook: "on_change ?t = Some on_threads"
    by (simp_all add: Option_spin_def)
  have cur: "currentValue ?t = ''1.000000''" by code_simp
  have ok: "rejects ?t (currentValue ?t) = Inr False" by code_simp
  from accepted_assign_of_same_value_calls [OF ty kind ok] hook
  have "Option_assign ?t (currentValue ?t) = Inr (?t, [(on_threads, ?t)])" by blast
  with cur show ?thesis by simp
qed

lemma string_assign:
  "type opt = ''string'' \<Longrightarrow>
   Option_assign opt v =
     (if v = [] then Inr (opt, [])
      else Inr (opt\<lparr>currentValue := v\<rparr>,
                case on_change opt of None \<Rightarrow> [] | Some f \<Rightarrow> [(f, opt\<lparr>currentValue := v\<rparr>)]))"
  by (simp add: Option_assign_def string_rejects Let_def)

lemma string_assign_all:
  "type opt = ''string'' \<Longrightarrow> currentValue opt \<noteq> [] \<Longrightarrow>
   \<exists>opt' cs. assign_all opt vs = Inr (opt', cs) \<and> type opt' = ''string'' \<and> currentValue opt' \<noteq> []"
proof (induction vs arbitrary: opt)
  case Nil
  then show ?case by simp
next
  case (Cons v vs)
  show ?case
  proof (cases "v = []")
    case True
    with Cons.prems have "Option_assign opt v = Inr (opt, [])" by (simp add: string_assign)
    moreover from Cons.IH [OF Cons.prems] obtain opt' cs where
      "assign_all opt vs = Inr (opt', cs)" "type opt' = ''string''" "currentValue opt' \<noteq> []"
      by blast
    ultimately show ?thesis by simp
  next
    case False
    let ?o = "opt\<lparr>currentValue := v\<rparr>"
    from False Cons.prems obtain cs0 where step: "Option_assign opt v = Inr (?o, cs0)"
      by (simp add: string_assign)
    from False Cons.prems have "type ?o = ''string''" "currentValue ?o \<noteq> []" by simp_all
    from Cons.IH [OF this] obtain opt' cs where
      "assign_all ?o vs = Inr (opt', cs)" "type opt' = ''string''" "currentValue opt' \<noteq> []"
      by blast
    with step show ?thesis by simp
  qed
qed

text \<open>
  C3. A combo option with the allowed values \<^verbatim>\<open>Both\<close>, \<^verbatim>\<open>Off\<close>, \<^verbatim>\<open>White\<close>,
  \<^verbatim>\<open>Black\<close> and the current value \<^verbatim>\<open>Both\<close> rejects the assignment of \<^verbatim>\<open>both\<close>
  (it is returned unchanged and no action is called), while its comparison with the
  literal \<^verbatim>\<open>both\<close> is true. For every combo option the comparison with a literal is
  true exactly when the literal equals the current value up to case, while an assignment
  is rejected exactly when the value is empty or not one of the allowed values as it is
  written; so every text that equals the current value up to case without being one of
  the allowed values is rejected and compares equal.
\<close>

theorem combo_assign_exact_eq_caseless:
  "(type opt = ''combo'' \<and> comboValues opt = [''Both'', ''Off'', ''White'', ''Black'']
      \<and> currentValue opt = ''Both''
    \<longrightarrow> Option_assign opt ''both'' = Inr (opt, []) \<and> Option_eq opt ''both'' = Inr True)
   \<and> (type opt = ''combo''
    \<longrightarrow> Option_eq opt s = Inr (map tolower s = map tolower (currentValue opt))
        \<and> rejects opt s = Inr (s = [] \<or> s \<notin> set (comboValues opt)))
   \<and> (type opt = ''combo'' \<and> map tolower s = map tolower (currentValue opt)
      \<and> s \<notin> set (comboValues opt)
    \<longrightarrow> Option_assign opt s = Inr (opt, []) \<and> Option_eq opt s = Inr True)"
proof -
  have eq: "Option_eq opt t = Inr (map tolower t = map tolower (currentValue opt))"
    if "type opt = ''combo''" for t
    using that ci_equiv [of "currentValue opt" t] by (auto simp: Option_eq_def)
  have rej: "rejects opt t = Inr (t = [] \<or> t \<notin> set (comboValues opt))"
    if "type opt = ''combo''" for t
    using that by (simp add: rejects_def)
  have general: "Option_assign opt t = Inr (opt, []) \<and> Option_eq opt t = Inr True"
    if kind: "type opt = ''combo''" and same: "map tolower t = map tolower (currentValue opt)"
      and absent: "t \<notin> set (comboValues opt)" for t
  proof -
    from kind have ty: "type opt \<noteq> []" by auto
    from rej [OF kind, of t] absent have "rejects opt t = Inr True" by simp
    with ty have "Option_assign opt t = Inr (opt, [])" by (rule assign_rejected)
    with eq [OF kind, of t] same show ?thesis by simp
  qed
  have "map tolower ''both'' = map tolower ''Both''" by (simp add: tolower_def)
  with general [of "''both''"] general [of s] eq [of s] rej [of s] show ?thesis by auto
qed

theorem combo_assign_exact_eq_caseless_witness:
  "Option_assign (Option_combo ''Both'' [''Both'', ''Off'', ''White'', ''Black''] None) ''both''
     = Inr (Option_combo ''Both'' [''Both'', ''Off'', ''White'', ''Black''] None, [])
   \<and> Option_eq (Option_combo ''Both'' [''Both'', ''Off'', ''White'', ''Black''] None) ''both''
     = Inr True
   \<and> Option_eq (Option_combo ''Both'' [''Both'', ''Off'', ''White'', ''Black''] None) ''Bot''
     = Inr False
   \<and> Option_eq (Option_combo ''Both'' [''Both'', ''Off'', ''White'', ''Black''] None) ''Off''
     = Inr False
   \<and> rejects (Option_combo ''Both'' [''Both'', ''Off'', ''White'', ''Black''] None) ''Off''
     = Inr False
   \<and> rejects (Option_combo ''Both'' [''Both'', ''Off'', ''White'', ''Black''] None) ''off''
     = Inr True
   \<and> Option_assign (Option_combo ''musketeer'' [''musketeer''] (Some on_variant)) ''Musketeer''
     = Inr (Option_combo ''musketeer'' [''musketeer''] (Some on_variant), [])
   \<and> Option_eq (Option_combo ''musketeer'' [''musketeer''] (Some on_variant)) ''Musketeer''
     = Inr True"
proof -
  let ?v = "Option_combo ''musketeer'' [''musketeer''] (Some on_variant)"
  let ?c = "Option_combo ''Both'' [''Both'', ''Off'', ''White'', ''Black''] None"
  have v: "type ?v = ''combo'' \<and> map tolower ''Musketeer'' = map tolower (currentValue ?v)
           \<and> ''Musketeer'' \<notin> set (comboValues ?v)"
    by (simp add: Option_combo_def tolower_def)
  have c: "type ?c = ''combo''" "comboValues ?c = [''Both'', ''Off'', ''White'', ''Black'']"
    "currentValue ?c = ''Both''"
    by (simp_all add: Option_combo_def)
  have bot: "map tolower ''Bot'' \<noteq> map tolower ''Both''"
    and off: "map tolower ''Off'' \<noteq> map tolower ''Both''"
    by (simp_all add: tolower_def)
  from combo_assign_exact_eq_caseless [of ?c "''Bot''"]
       combo_assign_exact_eq_caseless [of ?c "''Off''"]
       combo_assign_exact_eq_caseless [of ?c "''off''"] c bot off
  have "Option_assign ?c ''both'' = Inr (?c, [])" "Option_eq ?c ''both'' = Inr True"
    "Option_eq ?c ''Bot'' = Inr False" "Option_eq ?c ''Off'' = Inr False"
    "rejects ?c ''Off'' = Inr False" "rejects ?c ''off'' = Inr True"
    by simp_all
  moreover from combo_assign_exact_eq_caseless [of ?v "''Musketeer''"] v
  have "Option_assign ?v ''Musketeer'' = Inr (?v, [])" "Option_eq ?v ''Musketeer'' = Inr True"
    by blast+
  ultimately show ?thesis by blast
qed

section \<open>Declarations and the order of printing\<close>

lemma CaseInsensitiveLess_trans:
  "CaseInsensitiveLess a b \<Longrightarrow> CaseInsensitiveLess b c \<Longrightarrow> CaseInsensitiveLess a c"
  unfolding CaseInsensitiveLess_def
proof (induction a arbitrary: b c)
  case Nil
  then show ?case by (cases b; cases c) simp_all
next
  case (Cons x xs)
  from Cons.prems obtain y ys where b: "b = y # ys" by (cases b) auto
  from Cons.prems b obtain z zs where c: "c = z # zs" by (cases c) auto
  from Cons.prems Cons.IH [of ys zs] show ?case
    unfolding b c by (auto split: if_splits)
qed

lemma map_put_fresh:
  assumes "\<forall>it \<in> set m. map tolower (fst it) \<noteq> map tolower k"
  shows "set (map_put k v m) = insert (k, v) (set m) \<and> length (map_put k v m) = Suc (length m)"
  using assms
proof (induction m)
  case Nil
  then show ?case by simp
next
  case (Cons e m)
  obtain k' v' where e: "e = (k', v')" by (cases e)
  from Cons.prems e have "map tolower k \<noteq> map tolower k'" by auto
  then have "CaseInsensitiveLess k k' \<or> CaseInsensitiveLess k' k"
    using ci_equiv [of k k'] by blast
  with Cons e show ?case by auto
qed

lemma map_put_keys:
  "(a, b) \<in> set (map_put k v m) \<Longrightarrow> a = k \<or> (\<exists>b'. (a, b') \<in> set m)"
proof (induction m)
  case Nil
  then show ?case by simp
next
  case (Cons e m)
  obtain k' v' where e: "e = (k', v')" by (cases e)
  from Cons show ?case unfolding e by (fastforce split: if_splits)
qed

lemma sorted_map_put:
  "sorted_wrt CaseInsensitiveLess (map fst m) \<Longrightarrow>
   sorted_wrt CaseInsensitiveLess (map fst (map_put k v m))"
proof (induction m)
  case Nil
  then show ?case by simp
next
  case (Cons e m)
  obtain k' v' where e: "e = (k', v')" by (cases e)
  from Cons.prems e have above: "CaseInsensitiveLess k' a" if "(a, b) \<in> set m" for a b
    using that by force
  from Cons.prems have rest: "sorted_wrt CaseInsensitiveLess (map fst m)"
    by simp
  show ?case
  proof (cases "CaseInsensitiveLess k' k")
    case True
    have "CaseInsensitiveLess k' a" if "(a, b) \<in> set (map_put k v m)" for a b
      using map_put_keys [OF that] above True by blast
    then have "\<forall>x \<in> set (map fst (map_put k v m)). CaseInsensitiveLess k' x"
      by auto
    with True e Cons.IH [OF rest] show ?thesis by simp
  next
    case False
    show ?thesis
    proof (cases "CaseInsensitiveLess k k'")
      case True
      have "CaseInsensitiveLess k a" if "(a, b) \<in> set m" for a b
        using above [OF that] True by (rule CaseInsensitiveLess_trans [rotated])
      then have "\<forall>x \<in> set (map fst m). CaseInsensitiveLess k x" by auto
      moreover from above have "\<forall>x \<in> set (map fst m). CaseInsensitiveLess k' x" by auto
      ultimately show ?thesis using True False rest e by simp
    next
      case nl: False
      from above have "\<forall>x \<in> set (map fst m). CaseInsensitiveLess k' x" by auto
      with nl False rest e show ?thesis by simp
    qed
  qed
qed

lemma numbered_snoc:
  "numbered n (ds @ [d]) = numbered n ds @ [(fst d, (snd d)\<lparr>idx := Some (n + length ds)\<rparr>)]"
  by (induction ds arbitrary: n) simp_all

lemma length_numbered: "length (numbered n ds) = length ds"
  by (induction ds arbitrary: n) simp_all

lemma numbered_nth:
  "i < length ds \<Longrightarrow> numbered n ds ! i = (fst (ds ! i), (snd (ds ! i))\<lparr>idx := Some (n + i)\<rparr>)"
proof (induction ds arbitrary: n i)
  case Nil
  then show ?case by simp
next
  case (Cons d ds)
  then show ?case by (cases i) simp_all
qed

lemma map_fst_numbered: "map fst (numbered n ds) = map fst ds"
  by (induction ds arbitrary: n) simp_all

lemma map_idx_numbered: "map (idx \<circ> snd) (numbered n ds) = map Some [n..<n + length ds]"
proof (induction ds arbitrary: n)
  case Nil
  then show ?case by simp
next
  case (Cons d ds)
  have "[n..<n + length (d # ds)] = n # [Suc n..<Suc n + length ds]"
    by (simp add: upt_rec)
  with Cons [of "Suc n"] show ?case by simp
qed

lemma add_options_snoc: "add_options s (ds @ [d]) = add_option (add_options s ds) d"
  by (simp add: add_options_def)

lemma add_options_invariant:
  assumes "distinct (map (map tolower \<circ> fst) ds)" and "Options s = []"
  shows "insert_order (add_options s ds) = insert_order s + length ds
         \<and> set (Options (add_options s ds)) = set (numbered (insert_order s) ds)
         \<and> length (Options (add_options s ds)) = length ds"
  using assms(1)
proof (induction ds rule: rev_induct)
  case Nil
  with assms(2) show ?case by (simp add: add_options_def)
next
  case (snoc d ds)
  let ?s = "add_options s ds"
  let ?e = "(snd d)\<lparr>idx := Some (insert_order s + length ds)\<rparr>"
  from snoc have ih: "insert_order ?s = insert_order s + length ds"
    "set (Options ?s) = set (numbered (insert_order s) ds)"
    "length (Options ?s) = length ds"
    by simp_all
  have "fst ` set (Options ?s) = set (map fst (numbered (insert_order s) ds))"
    using ih(2) by simp
  then have keys: "fst ` set (Options ?s) = fst ` set ds"
    by (simp add: map_fst_numbered)
  have new: "map tolower (fst x) \<noteq> map tolower (fst d)" if "x \<in> set ds" for x
  proof
    assume "map tolower (fst x) = map tolower (fst d)"
    with that have "(map tolower \<circ> fst) d \<in> (map tolower \<circ> fst) ` set ds"
      by (intro image_eqI [of _ _ x]) simp_all
    with snoc.prems show False by simp
  qed
  have fresh: "\<forall>it \<in> set (Options ?s). map tolower (fst it) \<noteq> map tolower (fst d)"
  proof
    fix it
    assume "it \<in> set (Options ?s)"
    then have "fst it \<in> fst ` set ds" using keys by blast
    then obtain x where "x \<in> set ds" "fst x = fst it" by auto
    with new [of x] show "map tolower (fst it) \<noteq> map tolower (fst d)" by simp
  qed
  have step: "add_options s (ds @ [d]) =
      \<lparr>Options = map_put (fst d) ?e (Options ?s), insert_order = insert_order s + length ds + 1\<rparr>"
    by (simp add: add_options_snoc add_option_def Option_shl_def ih(1))
  from map_put_fresh [OF fresh, of ?e] ih step show ?case
    by (simp add: numbered_snoc)
qed

lemma find_unique:
  assumes "x \<in> set xs" and "P x" and "\<And>y. y \<in> set xs \<Longrightarrow> P y \<Longrightarrow> y = x"
  shows "find P xs = Some x"
  using assms
proof (induction xs)
  case Nil
  then show ?case by simp
next
  case (Cons a xs)
  show ?case
  proof (cases "P a")
    case True
    have "a = x" by (rule Cons.prems(3)) (simp_all add: True)
    with True show ?thesis by simp
  next
    case False
    with Cons.prems(1,2) have "x \<in> set xs" by auto
    moreover have "y = x" if "y \<in> set xs" "P y" for y
      by (rule Cons.prems(3)) (simp_all add: that)
    ultimately have "find P xs = Some x" using Cons.prems(2) by (intro Cons.IH)
    with False show ?thesis by simp
  qed
qed

lemma select_numbered:
  assumes "set om = set (numbered 0 ds)" and "i < length ds"
  shows "select i om =
           (if fst (numbered 0 ds ! i) \<noteq> ''Protocol'' then Some (numbered 0 ds ! i) else None)"
proof -
  let ?x = "numbered 0 ds ! i"
  let ?P = "\<lambda>it. idx (snd it) = Some i \<and> fst it \<noteq> ''Protocol''"
  have mem: "?x \<in> set om" using assms by (simp add: length_numbered)
  have idx_x: "idx (snd ?x) = Some i" using assms(2) by (simp add: numbered_nth)
  have uniq: "y = ?x" if "y \<in> set om" "idx (snd y) = Some i" for y
  proof -
    from that(1) assms(1) have "y \<in> set (numbered 0 ds)" by simp
    then obtain j where j: "j < length ds" "y = numbered 0 ds ! j"
      by (auto simp: in_set_conv_nth length_numbered)
    with that(2) have "j = i" by (simp add: numbered_nth)
    with j show ?thesis by simp
  qed
  show ?thesis
  proof (cases "fst ?x \<noteq> ''Protocol''")
    case True
    have "find ?P om = Some ?x"
    proof (rule find_unique)
      show "?x \<in> set om" by (rule mem)
      show "?P ?x" using idx_x True by simp
      show "y = ?x" if "y \<in> set om" "?P y" for y using that uniq by simp
    qed
    with True show ?thesis by (simp add: select_def)
  next
    case False
    have "\<not> ?P y" if "y \<in> set om" for y
      using uniq [OF that] False by auto
    then have "find ?P om = None" unfolding find_None_iff by blast
    with False show ?thesis by (simp add: select_def)
  qed
qed

lemma visited_numbered:
  assumes "set om = set (numbered 0 ds)" and "length om = length ds"
  shows "visited om = filter (\<lambda>it. fst it \<noteq> ''Protocol'') (numbered 0 ds)"
proof -
  let ?xs = "numbered 0 ds"
  let ?n = "length ds"
  let ?Q = "\<lambda>it. fst it \<noteq> ''Protocol''"
  have sel: "select i om = (if ?Q (?xs ! i) then Some (?xs ! i) else None)" if "i < ?n" for i
    using select_numbered [OF assms(1) that] .
  have keep: "filter (\<lambda>i. select i om \<noteq> None) [0..<?n] = filter (\<lambda>i. ?Q (?xs ! i)) [0..<?n]"
    by (rule filter_cong) (simp_all add: sel)
  have vals: "map (the \<circ> (\<lambda>i. select i om)) (filter (\<lambda>i. ?Q (?xs ! i)) [0..<?n])
              = map (\<lambda>i. ?xs ! i) (filter (\<lambda>i. ?Q (?xs ! i)) [0..<?n])"
    by (rule map_cong) (simp_all add: sel)
  have "visited om = map (the \<circ> (\<lambda>i. select i om)) (filter (\<lambda>i. select i om \<noteq> None) [0..<?n])"
    by (simp only: visited_def List.map_filter_def assms(2))
  also have "\<dots> = map (\<lambda>i. ?xs ! i) (filter (\<lambda>i. ?Q (?xs ! i)) [0..<?n])"
    by (simp only: keep vals)
  also have "\<dots> = map (\<lambda>i. ?xs ! i) (filter (?Q \<circ> (\<lambda>i. ?xs ! i)) [0..<?n])"
    by (simp only: comp_def)
  also have "\<dots> = filter ?Q (map (\<lambda>i. ?xs ! i) [0..<?n])"
    by (rule filter_map [symmetric])
  also have "map (\<lambda>i. ?xs ! i) [0..<?n] = ?xs"
    using map_nth [of ?xs] by (simp only: length_numbered)
  finally show ?thesis .
qed

lemma print_loop_entries:
  "print_loop line om ns = print_entries line (List.map_filter (\<lambda>i. select i om) ns)"
proof (induction ns)
  case Nil
  then show ?case by (simp add: List.map_filter_simps)
next
  case (Cons i ns)
  then show ?case
    by (cases "select i om") (simp_all add: List.map_filter_simps split: sum.splits)
qed

lemma print_loop_visited:
  "print_loop line om [0..<length om] = print_entries line (visited om)"
  by (simp add: print_loop_entries visited_def)

lemma sorted_add_options:
  "sorted_wrt CaseInsensitiveLess (map fst (Options s)) \<Longrightarrow>
   sorted_wrt CaseInsensitiveLess (map fst (Options (add_options s ds)))"
proof (induction ds rule: rev_induct)
  case Nil
  then show ?case by (simp add: add_options_def)
next
  case (snoc d ds)
  then show ?case
    by (simp add: add_options_snoc add_option_def Option_shl_def sorted_map_put)
qed

text \<open>
  C4. Declarations made one after the other in the initial state (an empty map, the
  counter at 0) under names that are pairwise different up to case: the declaration
  number \<open>k\<close> (from 0) gets the index \<open>k\<close>, so the indices are unique and increase
  strictly in the order of declaration; the map itself is ordered by the case-insensitive
  order of the names; and the entries printed are the declared ones other than
  \<^verbatim>\<open>Protocol\<close>, in the order of declaration, whatever the names are.
\<close>

theorem declaration_order_is_print_order:
  assumes "distinct (map (map tolower \<circ> fst) ds)"
  shows "insert_order (add_options initial_state ds) = length ds
         \<and> set (Options (add_options initial_state ds)) = set (numbered 0 ds)
         \<and> map (idx \<circ> snd) (numbered 0 ds) = map Some [0..<length ds]
         \<and> sorted_wrt CaseInsensitiveLess (map fst (Options (add_options initial_state ds)))
         \<and> visited (Options (add_options initial_state ds))
             = filter (\<lambda>it. fst it \<noteq> ''Protocol'') (numbered 0 ds)
         \<and> print_loop line (Options (add_options initial_state ds))
               [0..<length (Options (add_options initial_state ds))]
             = print_entries line (filter (\<lambda>it. fst it \<noteq> ''Protocol'') (numbered 0 ds))"
proof -
  let ?s = "add_options initial_state ds"
  have empty: "Options initial_state = []" and zero: "insert_order initial_state = 0"
    by (simp_all add: initial_state_def)
  from add_options_invariant [OF assms empty] zero
  have inv: "insert_order ?s = length ds" "set (Options ?s) = set (numbered 0 ds)"
    "length (Options ?s) = length ds"
    by simp_all
  have idxs: "map (idx \<circ> snd) (numbered 0 ds) = map Some [0..<length ds]"
    using map_idx_numbered [of 0 ds] by simp
  have "sorted_wrt CaseInsensitiveLess (map fst (Options initial_state))"
    by (simp add: empty)
  then have sorted: "sorted_wrt CaseInsensitiveLess (map fst (Options ?s))"
    by (rule sorted_add_options)
  have vis: "visited (Options ?s) = filter (\<lambda>it. fst it \<noteq> ''Protocol'') (numbered 0 ds)"
    using inv(2) inv(3) by (rule visited_numbered)
  have "print_loop line (Options ?s) [0..<length (Options ?s)]
        = print_entries line (filter (\<lambda>it. fst it \<noteq> ''Protocol'') (numbered 0 ds))"
    by (simp only: print_loop_visited vis)
  with inv(1,2) idxs sorted vis show ?thesis by simp
qed

theorem declaration_order_is_print_order_witness:
  "visited (Options (add_options initial_state
      [(''b'', Option_button None), (''Protocol'', Option_combo ''uci'' [''uci'', ''xboard''] None),
       (''A'', Option_check True None)]))
     = [(''b'', (Option_button None)\<lparr>idx := Some 0\<rparr>),
        (''A'', (Option_check True None)\<lparr>idx := Some 2\<rparr>)]
   \<and> map fst (Options (add_options initial_state
      [(''b'', Option_button None), (''Protocol'', Option_combo ''uci'' [''uci'', ''xboard''] None),
       (''A'', Option_check True None)]))
     = [''A'', ''b'', ''Protocol'']"
proof -
  let ?ds = "[(''b'', Option_button None),
              (''Protocol'', Option_combo ''uci'' [''uci'', ''xboard''] None),
              (''A'', Option_check True None)]"
  have names: "distinct (map (map tolower \<circ> fst) ?ds)" by (simp add: tolower_def)
  have order: "map fst (Options (add_options initial_state ?ds)) = [''A'', ''b'', ''Protocol'']"
    by code_simp
  from declaration_order_is_print_order [OF names] order show ?thesis by simp
qed

text \<open>
  Declaring a name again takes a new index for the same entry: after \<^verbatim>\<open>A\<close>, \<^verbatim>\<open>B\<close>,
  \<^verbatim>\<open>A\<close> the map has two entries with the indices 2 and 1, the loop looks for the indices
  0 and 1, and the entry \<^verbatim>\<open>A\<close> is never printed.
\<close>

theorem redeclared_name_counterexample:
  "map fst (Options (add_options initial_state
        [(''A'', Option_button None), (''B'', Option_button None), (''A'', Option_button None)]))
     = [''A'', ''B'']
   \<and> map (idx \<circ> snd) (Options (add_options initial_state
        [(''A'', Option_button None), (''B'', Option_button None), (''A'', Option_button None)]))
     = [Some 2, Some 1]
   \<and> map fst (visited (Options (add_options initial_state
        [(''A'', Option_button None), (''B'', Option_button None), (''A'', Option_button None)])))
     = [''B'']"
  by code_simp

section \<open>The options of \<^verbatim>\<open>init\<close>\<close>

text \<open>The map after \<^verbatim>\<open>init\<close> on the initial state, in the order of its iteration.\<close>

lemma init_Options:
  "Options (init b initial_state) =
   [(''Analysis Contempt'', (Option_combo ''Both'' [''Both'', ''Off'', ''White'', ''Black''] None)\<lparr>idx := Some 3\<rparr>),
    (''ArchbishopValueEg'', (Option_spin 2202 1202 3202 (Some on_piece_value))\<lparr>idx := Some 26\<rparr>),
    (''ArchbishopValueMg'', (Option_spin 2036 1036 3036 (Some on_piece_value))\<lparr>idx := Some 25\<rparr>),
    (''CannonValueEg'', (Option_spin 2239 1239 3239 (Some on_piece_value))\<lparr>idx := Some 22\<rparr>),
    (''CannonValueMg'', (Option_spin 1710 710 2710 (Some on_piece_value))\<lparr>idx := Some 21\<rparr>),
    (''ChancellorValueEg'', (Option_spin 2344 1344 3344 (Some on_piece_value))\<lparr>idx := Some 28\<rparr>),
    (''ChancellorValueMg'', (Option_spin 2251 1251 3251 (Some on_piece_value))\<lparr>idx := Some 27\<rparr>),
    (''Clear Hash'', (Option_button (Some on_clear_hash))\<lparr>idx := Some 6\<rparr>),
    (''Contempt'', (Option_spin 21 (- 100) 100 None)\<lparr>idx := Some 2\<rparr>),
    (''Debug Log File'', (Option_string [] (Some on_logger))\<lparr>idx := Some 1\<rparr>),
    (''DragonValueEg'', (Option_spin 2769 1769 3769 (Some on_piece_value))\<lparr>idx := Some 32\<rparr>),
    (''DragonValueMg'', (Option_spin 3280 2280 4280 (Some on_piece_value))\<lparr>idx := Some 31\<rparr>),
    (''ElephantValueEg'', (Option_spin 2000 1000 3000 (Some on_piece_value))\<lparr>idx := Some 38\<rparr>),
    (''ElephantValueMg'', (Option_spin 1770 770 2770 (Some on_piece_value))\<lparr>idx := Some 37\<rparr>),
    (''FortressValueEg'', (Option_spin 2100 1100 3100 (Some on_piece_value))\<lparr>idx := Some 40\<rparr>),
    (''FortressValueMg'', (Option_spin 1956 956 2956 (Some on_piece_value))\<lparr>idx := Some 39\<rparr>),
    (''Hash'', (Option_spin 16 1 (MaxHashMB b) (Some on_hash_size))\<lparr>idx := Some 5\<rparr>),
    (''HawkValueEg'', (Option_spin 1561 561 2561 (Some on_piece_value))\<lparr>idx := Some 36\<rparr>),
    (''HawkValueMg'', (Option_spin 1537 537 2537 (Some on_piece_value))\<lparr>idx := Some 35\<rparr>),
    (''LeopardValueEg'', (Option_spin 2014 1014 3014 (Some on_piece_value))\<lparr>idx := Some 24\<rparr>),
    (''LeopardValueMg'', (Option_spin 1648 648 2648 (Some on_piece_value))\<lparr>idx := Some 23\<rparr>),
    (''Minimum Thinking Time'', (Option_spin 20 0 5000 None)\<lparr>idx := Some 11\<rparr>),
    (''Move Overhead'', (Option_spin 30 0 5000 None)\<lparr>idx := Some 10\<rparr>),
    (''MultiPV'', (Option_spin 1 1 500 None)\<lparr>idx := Some 8\<rparr>),
    (''nodestime'', (Option_spin 0 0 10000 None)\<lparr>idx := Some 13\<rparr>),
    (''Ponder'', (Option_check False None)\<lparr>idx := Some 7\<rparr>),
    (''Protocol'', (Option_combo ''uci'' [''uci'', ''xboard''] None)\<lparr>idx := Some 0\<rparr>),
    (''Skill Level'', (Option_spin 20 0 20 None)\<lparr>idx := Some 9\<rparr>),
    (''Slow Mover'', (Option_spin 84 10 1000 None)\<lparr>idx := Some 12\<rparr>),
    (''SpiderValueEg'', (Option_spin 2718 1718 3718 (Some on_piece_value))\<lparr>idx := Some 30\<rparr>),
    (''SpiderValueMg'', (Option_spin 2321 1321 3321 (Some on_piece_value))\<lparr>idx := Some 29\<rparr>),
    (''Syzygy50MoveRule'', (Option_check True None)\<lparr>idx := Some 19\<rparr>),
    (''SyzygyPath'', (Option_string ''<empty>'' (Some on_tb_path))\<lparr>idx := Some 17\<rparr>),
    (''SyzygyProbeDepth'', (Option_spin 1 1 100 None)\<lparr>idx := Some 18\<rparr>),
    (''SyzygyProbeLimit'', (Option_spin 6 0 6 None)\<lparr>idx := Some 20\<rparr>),
    (''Threads'', (Option_spin 1 1 512 (Some on_threads))\<lparr>idx := Some 4\<rparr>),
    (''UCI_AnalyseMode'', (Option_check False None)\<lparr>idx := Some 16\<rparr>),
    (''UCI_Chess960'', (Option_check False None)\<lparr>idx := Some 15\<rparr>),
    (''UCI_Variant'', (Option_combo ''musketeer'' [''musketeer''] (Some on_variant))\<lparr>idx := Some 14\<rparr>),
    (''UnicornValueEg'', (Option_spin 1772 772 2772 (Some on_piece_value))\<lparr>idx := Some 34\<rparr>),
    (''UnicornValueMg'', (Option_spin 1584 584 2584 (Some on_piece_value))\<lparr>idx := Some 33\<rparr>)]"
  by (simp add: init_def add_options_def init_options_def add_option_def Option_shl_def
        initial_state_def CaseInsensitiveLess_def tolower_def)

lemma init_Debug_Log_File:
  "map_find ''Debug Log File'' (Options (init b initial_state))
     = Some ((Option_string [] (Some on_logger))\<lparr>idx := Some 1\<rparr>)"
  by (simp add: init_Options CaseInsensitiveLess_def tolower_def)

text \<open>
  C10. The empty value is rejected silently by a string option, although the default of
  a string option may be empty, as that of \<^verbatim>\<open>Debug Log File\<close> in \<^verbatim>\<open>init\<close> is. So a
  string option whose current value is not empty keeps a current value that is not empty
  through any sequence of assignments, none of which faults.
\<close>

theorem string_option_never_emptied:
  assumes "type opt = ''string''"
  shows "Option_assign opt [] = Inr (opt, [])
         \<and> (currentValue opt \<noteq> [] \<longrightarrow>
              (\<exists>opt' cs. assign_all opt vs = Inr (opt', cs) \<and> currentValue opt' \<noteq> []))
         \<and> (\<exists>d. map_find ''Debug Log File'' (Options (init b initial_state)) = Some d
                 \<and> type d = ''string'' \<and> defaultValue d = [])"
proof -
  from assms have "Option_assign opt [] = Inr (opt, [])" by (simp add: string_assign)
  moreover have "\<exists>opt' cs. assign_all opt vs = Inr (opt', cs) \<and> currentValue opt' \<noteq> []"
    if "currentValue opt \<noteq> []"
    using string_assign_all [OF assms that, of vs] by blast
  moreover have "\<exists>d. map_find ''Debug Log File'' (Options (init b initial_state)) = Some d
                 \<and> type d = ''string'' \<and> defaultValue d = []"
    by (simp add: init_Debug_Log_File Option_string_def)
  ultimately show ?thesis by blast
qed

theorem string_option_never_emptied_witness:
  "Option_assign (Option_string ''<empty>'' (Some on_tb_path)) []
     = Inr (Option_string ''<empty>'' (Some on_tb_path), [])
   \<and> (\<exists>opt' cs. assign_all (Option_string ''<empty>'' (Some on_tb_path)) [''/tb'', []]
                    = Inr (opt', cs) \<and> currentValue opt' \<noteq> [])"
proof -
  let ?p = "Option_string ''<empty>'' (Some on_tb_path)"
  have kind: "type ?p = ''string''" and full: "currentValue ?p \<noteq> []"
    by (simp_all add: Option_string_def)
  from string_option_never_emptied [OF kind, of "[''/tb'', []]"] full show ?thesis by blast
qed

section \<open>The two formats\<close>

lemma select_filter:
  "select i (filter (\<lambda>it. fst it \<noteq> ''Protocol'') om) = select i om"
  unfolding select_def by (induction om) simp_all

lemma print_loop_filter:
  "print_loop line (filter (\<lambda>it. fst it \<noteq> ''Protocol'') om) ns = print_loop line om ns"
  by (induction ns) (simp_all add: select_filter split: option.splits sum.splits)

lemma select_not_Protocol: "select i om = Some it \<Longrightarrow> fst it \<noteq> ''Protocol''"
  unfolding select_def by (induction om) (auto split: if_splits)

lemma visited_not_Protocol: "it \<in> set (visited om) \<Longrightarrow> fst it \<noteq> ''Protocol''"
proof -
  assume "it \<in> set (visited om)"
  then obtain i where "select i om = Some it"
    by (auto simp: visited_def List.map_filter_def)
  then show ?thesis by (rule select_not_Protocol)
qed

lemma uci_line_shape:
  "uci_line it = Inr t \<Longrightarrow> \<exists>r. t = ''\<newline>option name '' @ fst it @ '' type '' @ r"
  by (auto simp: uci_line_def Let_def split: if_splits sum.splits)

lemma xboard_line_shape:
  "xboard_line it = Inr t \<Longrightarrow>
   \<exists>r. t = ''\<newline>feature option='' @ [CHR 0x22] @ fst it @ '' -'' @ r @ [CHR 0x22]"
  by (auto simp: xboard_line_def Let_def split: if_splits sum.splits)

text \<open>
  C5. With a combo option under the key \<^verbatim>\<open>Protocol\<close> in the global map, the xboard
  format (lines \<^verbatim>\<open>feature option="..."\<close>) is printed exactly when the current value of
  that option equals \<^verbatim>\<open>xboard\<close> up to case, and the UCI format (lines
  \<^verbatim>\<open>option name ... type ...\<close>) otherwise. In either format the entry with the key
  \<^verbatim>\<open>Protocol\<close> is left out: no printed entry has that key, and the text is the one
  printed for the map without that entry.
\<close>

theorem protocol_selects_format:
  assumes "map_find ''Protocol'' glob = Some p" and "type p = ''combo''"
  shows "OptionsMap_print glob om
           = print_loop (if map tolower (currentValue p) = map tolower ''xboard''
                         then xboard_line else uci_line) om [0..<length om]
         \<and> print_loop line om [0..<length om]
             = print_loop line (filter (\<lambda>it. fst it \<noteq> ''Protocol'') om) [0..<length om]
         \<and> (\<forall>it \<in> set (visited om). fst it \<noteq> ''Protocol'')
         \<and> (\<forall>it t. xboard_line it = Inr t \<longrightarrow>
               (\<exists>r. t = ''\<newline>feature option='' @ [CHR 0x22] @ fst it @ '' -'' @ r @ [CHR 0x22]))
         \<and> (\<forall>it t. uci_line it = Inr t \<longrightarrow>
               (\<exists>r. t = ''\<newline>option name '' @ fst it @ '' type '' @ r))"
proof -
  have "Option_eq p ''xboard'' = Inr (map tolower (currentValue p) = map tolower ''xboard'')"
    using assms(2) ci_equiv [of "currentValue p" "''xboard''"]
    by (simp only: Option_eq_def) simp
  with assms(1) have "OptionsMap_print glob om
           = print_loop (if map tolower (currentValue p) = map tolower ''xboard''
                         then xboard_line else uci_line) om [0..<length om]"
    by (simp add: OptionsMap_print_def)
  moreover have "print_loop line om [0..<length om]
             = print_loop line (filter (\<lambda>it. fst it \<noteq> ''Protocol'') om) [0..<length om]"
    by (simp only: print_loop_filter)
  ultimately show ?thesis
    using visited_not_Protocol xboard_line_shape uci_line_shape by blast
qed

theorem protocol_selects_format_witness:
  "OptionsMap_print
     [(''Protocol'', (Option_combo ''uci'' [''uci'', ''xboard''] None)\<lparr>idx := Some 0\<rparr>),
      (''Threads'', (Option_spin 1 1 512 (Some on_threads))\<lparr>idx := Some 1\<rparr>)]
     [(''Protocol'', (Option_combo ''uci'' [''uci'', ''xboard''] None)\<lparr>idx := Some 0\<rparr>),
      (''Threads'', (Option_spin 1 1 512 (Some on_threads))\<lparr>idx := Some 1\<rparr>)]
     = Inr ''\<newline>option name Threads type spin default 1 min 1 max 512''
   \<and> OptionsMap_print
     [(''Protocol'', (Option_combo ''uci'' [''uci'', ''xboard''] None)
                       \<lparr>currentValue := ''xboard'', idx := Some 0\<rparr>),
      (''Threads'', (Option_spin 1 1 512 (Some on_threads))\<lparr>idx := Some 1\<rparr>)]
     [(''Protocol'', (Option_combo ''uci'' [''uci'', ''xboard''] None)
                       \<lparr>currentValue := ''xboard'', idx := Some 0\<rparr>),
      (''Threads'', (Option_spin 1 1 512 (Some on_threads))\<lparr>idx := Some 1\<rparr>)]
     = Inr (''\<newline>feature option='' @ [CHR 0x22] @ ''Threads -spin 1 1 512'' @ [CHR 0x22])"
proof -
  let ?u = "(Option_combo ''uci'' [''uci'', ''xboard''] None)\<lparr>idx := Some 0\<rparr>"
  let ?x = "(Option_combo ''uci'' [''uci'', ''xboard''] None)
              \<lparr>currentValue := ''xboard'', idx := Some 0\<rparr>"
  let ?t = "(''Threads'', (Option_spin 1 1 512 (Some on_threads))\<lparr>idx := Some 1\<rparr>)"
  let ?G = "[(''Protocol'', ?u), ?t]"
  let ?X = "[(''Protocol'', ?x), ?t]"
  have fu: "map_find ''Protocol'' ?G = Some ?u" and fx: "map_find ''Protocol'' ?X = Some ?x"
    by (simp_all add: CaseInsensitiveLess_def)
  have ku: "type ?u = ''combo''" and kx: "type ?x = ''combo''"
    by (simp_all add: Option_combo_def)
  have cu: "map tolower (currentValue ?u) \<noteq> map tolower ''xboard''"
    and cx: "map tolower (currentValue ?x) = map tolower ''xboard''"
    by (simp_all add: Option_combo_def tolower_def)
  have pu: "print_loop uci_line ?G [0..<length ?G]
              = Inr ''\<newline>option name Threads type spin default 1 min 1 max 512''"
    by code_simp
  have px: "print_loop xboard_line ?X [0..<length ?X]
              = Inr (''\<newline>feature option='' @ [CHR 0x22] @ ''Threads -spin 1 1 512'' @ [CHR 0x22])"
    by code_simp
  from protocol_selects_format [OF fu ku, of ?G] protocol_selects_format [OF fx kx, of ?X]
    cu cx pu px
  show ?thesis by simp
qed

section \<open>The default of a spin option\<close>

lemma int_of_float_Finite:
  "int_of_float (Finite r) =
     (if - 2147483648 \<le> trunc_zero r \<and> trunc_zero r \<le> 2147483647 then Inr (trunc_zero r)
      else Inl undefined_behaviour)"
  by (simp add: int_of_float_def)

lemma trunc_zero_toward_zero:
  "\<bar>of_int (trunc_zero r)\<bar> \<le> \<bar>r\<bar> \<and> \<bar>r - of_int (trunc_zero r)\<bar> < 1"
  unfolding trunc_zero_def by (cases "r < 0") (simp_all, linarith+)

lemma uci_line_spin:
  assumes "type opt = ''spin''" and "stof (defaultValue opt) = Inr (Finite r)"
    and "- 2147483648 \<le> trunc_zero r" and "trunc_zero r \<le> 2147483647"
  shows "uci_line (name, opt) =
           Inr (''\<newline>option name '' @ name @ '' type spin default '' @ show_int (trunc_zero r)
                @ '' min '' @ show_int (minv opt) @ '' max '' @ show_int (maxv opt))"
  using assms by (simp add: uci_line_def int_of_float_Finite Let_def)

lemma init_Threads:
  "select 4 (Options (init b initial_state))
     = Some (''Threads'', (Option_spin 1 1 512 (Some on_threads))\<lparr>idx := Some 4\<rparr>)"
  by (simp add: init_Options select_def)

lemma Threads_line:
  "uci_line (''Threads'', (Option_spin 1 1 512 (Some on_threads))\<lparr>idx := Some 4\<rparr>)
     = Inr ''\<newline>option name Threads type spin default 1 min 1 max 512''"
  by code_simp

text \<open>
  C6. The default of a spin option is stored as the text of a floating-point number, and
  the UCI line of a spin option shows the number read back from that text with its
  fractional part discarded (truncated toward zero, not rounded), then the bounds. In the
  map built by \<^verbatim>\<open>init\<close>, \<^verbatim>\<open>Threads\<close>, with the default 1 and the bounds 1 and 512, is
  the fifth declaration and has the index 4; its UCI line is
  \<^verbatim>\<open>option name Threads type spin default 1 min 1 max 512\<close> after a line feed.
\<close>

theorem spin_default_printed_truncated:
  "(type opt = ''spin'' \<and> stof (defaultValue opt) = Inr (Finite r)
      \<and> - 2147483648 \<le> trunc_zero r \<and> trunc_zero r \<le> 2147483647
    \<longrightarrow> uci_line (name, opt) =
           Inr (''\<newline>option name '' @ name @ '' type spin default '' @ show_int (trunc_zero r)
                @ '' min '' @ show_int (minv opt) @ '' max '' @ show_int (maxv opt)))
   \<and> \<bar>of_int (trunc_zero r)\<bar> \<le> \<bar>r\<bar> \<and> \<bar>r - of_int (trunc_zero r)\<bar> < 1
   \<and> defaultValue (Option_spin v lo hi f) = to_string v
   \<and> init_options b ! 4 = (''Threads'', Option_spin 1 1 512 (Some on_threads))
   \<and> select 4 (Options (init b initial_state))
       = Some (''Threads'', (Option_spin 1 1 512 (Some on_threads))\<lparr>idx := Some 4\<rparr>)
   \<and> uci_line (''Threads'', (Option_spin 1 1 512 (Some on_threads))\<lparr>idx := Some 4\<rparr>)
       = Inr ''\<newline>option name Threads type spin default 1 min 1 max 512''"
proof -
  have "init_options b ! 4 = (''Threads'', Option_spin 1 1 512 (Some on_threads))"
    by (simp add: init_options_def)
  moreover have "defaultValue (Option_spin v lo hi f) = to_string v"
    by (simp add: Option_spin_def)
  ultimately show ?thesis
    using uci_line_spin [of opt r name] trunc_zero_toward_zero [of r] init_Threads [of b]
      Threads_line
    by blast
qed

theorem spin_default_printed_truncated_witness:
  "uci_line (''x'', Option_spin (11 / 4) 0 10 None)
     = Inr ''\<newline>option name x type spin default 2 min 0 max 10''
   \<and> uci_line (''y'', Option_spin (- (11 / 4)) (- 10) 10 None)
     = Inr ''\<newline>option name y type spin default -2 min -10 max 10''"
proof -
  let ?p = "Option_spin (11 / 4) 0 10 None"
  let ?n = "Option_spin (- (11 / 4)) (- 10) 10 None"
  have p: "type ?p = ''spin'' \<and> stof (defaultValue ?p) = Inr (Finite (11 / 4))
           \<and> - 2147483648 \<le> trunc_zero (11 / 4) \<and> trunc_zero (11 / 4) \<le> 2147483647"
    by code_simp
  have n: "type ?n = ''spin'' \<and> stof (defaultValue ?n) = Inr (Finite (- (11 / 4)))
           \<and> - 2147483648 \<le> trunc_zero (- (11 / 4)) \<and> trunc_zero (- (11 / 4)) \<le> 2147483647"
    by code_simp
  have tp: "show_int (trunc_zero (11 / 4)) = ''2''" and tn: "show_int (trunc_zero (- (11 / 4))) = ''-2''"
    and b: "show_int 0 = ''0''" "show_int 10 = ''10''" "show_int (- 10) = ''-10''"
    by code_simp+
  have mp: "minv ?p = 0" "maxv ?p = 10" and mn: "minv ?n = - 10" "maxv ?n = 10"
    by (simp_all add: Option_spin_def)
  from spin_default_printed_truncated [of ?p "11 / 4" "''x''"]
       spin_default_printed_truncated [of ?n "- (11 / 4)" "''y''"] p n
  have "uci_line (''x'', ?p) =
          Inr (''\<newline>option name '' @ ''x'' @ '' type spin default '' @ show_int (trunc_zero (11 / 4))
               @ '' min '' @ show_int (minv ?p) @ '' max '' @ show_int (maxv ?p))"
    and "uci_line (''y'', ?n) =
          Inr (''\<newline>option name '' @ ''y'' @ '' type spin default '' @ show_int (trunc_zero (- (11 / 4)))
               @ '' min '' @ show_int (minv ?n) @ '' max '' @ show_int (maxv ?n))"
    by blast+
  then show ?thesis by (simp add: tp tn b mp mn)
qed

text \<open>
  In \<^verbatim>\<open>init\<close> the second declaration, with the index 1, is \<^verbatim>\<open>Debug Log File\<close>;
  \<^verbatim>\<open>Threads\<close> has the index 4.
\<close>

theorem Threads_index_counterexample:
  "fst (init_options True ! 1) = ''Debug Log File''
   \<and> select 1 (Options (init True initial_state))
       = Some (''Debug Log File'', (Option_string [] (Some on_logger))\<lparr>idx := Some 1\<rparr>)
   \<and> map_find ''Threads'' (Options (init True initial_state))
       = Some ((Option_spin 1 1 512 (Some on_threads))\<lparr>idx := Some 4\<rparr>)"
  by (simp add: init_options_def init_Options select_def CaseInsensitiveLess_def tolower_def)

end
